theory Spec2Isabelle
  imports Main
begin

section \<open>Python strings\<close>

text \<open>
  A Python \<^verbatim>\<open>str\<close> is modelled as a \<^typ>\<open>string\<close>: a list of 8-bit characters, read as
  the code points U+0000 to U+00FF. \<^verbatim>\<open>str.lower\<close>, \<^verbatim>\<open>str.strip\<close> and the classes
  \<^verbatim>\<open>\d\<close>, \<^verbatim>\<open>\w\<close>, \<^verbatim>\<open>\s\<close> of the \<^verbatim>\<open>re\<close> module are Python's on that range. Code points
  above U+00FF (the bullet, the en dash and the em dash that two patterns of main.py
  mention) do not occur in a modelled text.
\<close>

definition code :: "char \<Rightarrow> nat" where
  "code c = of_char c"

definition isspace :: "char \<Rightarrow> bool" where
  \<comment> \<open>\<^verbatim>\<open>str.isspace\<close> of one character: TAB, LF, VT, FF, CR, FS, GS, RS, US, SPACE, NEL, NBSP\<close>
  "isspace c = (let n = code c in
     (9 \<le> n \<and> n \<le> 13) \<or> (28 \<le> n \<and> n \<le> 32) \<or> n = 133 \<or> n = 160)"

definition lower_char :: "char \<Rightarrow> char" where
  \<comment> \<open>A-Z, and the capital letters U+00C0..U+00DE but the multiplication sign U+00D7\<close>
  "lower_char c = (let n = code c in
     if (65 \<le> n \<and> n \<le> 90) \<or> (192 \<le> n \<and> n \<le> 222 \<and> n \<noteq> 215)
     then char_of (n + 32) else c)"

definition lower :: "string \<Rightarrow> string" where
  "lower s = map lower_char s"

definition strip :: "string \<Rightarrow> string" where
  "strip s = rev (dropWhile isspace (rev (dropWhile isspace s)))"

fun startswith :: "string \<Rightarrow> string \<Rightarrow> bool" where
  \<comment> \<open>\<^verbatim>\<open>s.startswith(x)\<close>, with the sought string first\<close>
  "startswith [] s = True"
| "startswith (x # xs) [] = False"
| "startswith (x # xs) (c # cs) = (x = c \<and> startswith xs cs)"

fun sub_in :: "string \<Rightarrow> string \<Rightarrow> bool" where
  \<comment> \<open>\<^verbatim>\<open>x in s\<close> on strings\<close>
  "sub_in x [] = (x = [])"
| "sub_in x (c # cs) = (startswith x (c # cs) \<or> sub_in x cs)"

definition any_in :: "string list \<Rightarrow> string \<Rightarrow> bool" where
  \<comment> \<open>\<^verbatim>\<open>any(x in s for x in xs)\<close>\<close>
  "any_in xs s = list_ex (\<lambda>x. sub_in x s) xs"

fun split_nl :: "string \<Rightarrow> string list" where
  \<comment> \<open>\<^verbatim>\<open>text.split('\n')\<close>: never empty, the empty text gives one empty line\<close>
  "split_nl [] = [[]]"
| "split_nl (c # cs) =
     (if c = CHR 0x0A then [] # split_nl cs
      else (case split_nl cs of [] \<Rightarrow> [[c]] | l # ls \<Rightarrow> (c # l) # ls))"

section \<open>Section segmentation\<close>

text \<open>
  \<^verbatim>\<open>extract_education\<close>, \<^verbatim>\<open>extract_experience\<close> and \<^verbatim>\<open>extract_projects\<close> each begin with
  the same loop over the lines of the text, with their own keyword lists.
\<close>

datatype kind = Education | Experience | Projects

fun indicators :: "kind \<Rightarrow> string list" where
  "indicators Education =
     [''education'', ''academic'', ''degree'', ''university'', ''college'', ''school'',
      ''institute'']"
| "indicators Experience =
     [''experience'', ''employment'', ''work history'', ''professional experience'',
      ''career'']"
| "indicators Projects = [''projects'', ''personal projects'', ''academic projects'']"

fun end_keywords :: "kind \<Rightarrow> string list" where
  "end_keywords Education =
     [''experience'', ''work'', ''employment'', ''professional'', ''projects'', ''skills'']"
| "end_keywords Experience = [''education'', ''projects'', ''skills'', ''certifications'']"
| "end_keywords Projects = [''experience'', ''education'', ''skills'', ''certifications'']"

record scan_state =
  in_section :: bool
  section_text :: string
  stopped :: bool

definition header_line :: "kind \<Rightarrow> string \<Rightarrow> bool" where
  "header_line k line =
     (let line_lower = strip (lower line)
      in any_in (indicators k) line_lower \<and> length line_lower < 30)"

definition end_line :: "kind \<Rightarrow> string \<Rightarrow> bool" where
  "end_line k line =
     (let line_lower = strip (lower line)
      in line_lower \<noteq> [] \<and> length line_lower < 30 \<and> any_in (end_keywords k) line_lower)"

definition scan_step :: "kind \<Rightarrow> scan_state \<Rightarrow> string \<Rightarrow> scan_state" where
  \<comment> \<open>one run of the loop body; \<open>stopped\<close> records the \<^verbatim>\<open>break\<close>\<close>
  "scan_step k st line =
     (if stopped st then st
      else if header_line k line
        then st\<lparr>in_section := True, section_text := section_text st @ line @ [CHR 0x0A]\<rparr>
      else if in_section st \<and> end_line k line
        then st\<lparr>in_section := False, stopped := True\<rparr>
      else if in_section st \<and> strip line \<noteq> []
        then st\<lparr>section_text := section_text st @ line @ [CHR 0x0A]\<rparr>
      else st)"

definition scan_init :: scan_state where
  "scan_init = \<lparr>in_section = False, section_text = [], stopped = False\<rparr>"

definition scan_lines :: "kind \<Rightarrow> string list \<Rightarrow> scan_state" where
  "scan_lines k lines = foldl (scan_step k) scan_init lines"

definition find_section :: "kind \<Rightarrow> string \<Rightarrow> string" where
  "find_section k text = section_text (scan_lines k (split_nl text))"

definition is_open :: "scan_state \<Rightarrow> bool" where
  "is_open st = (in_section st \<and> \<not> stopped st)"

definition contributes :: "kind \<Rightarrow> string list \<Rightarrow> nat \<Rightarrow> bool" where
  \<comment> \<open>line \<open>i\<close> of the document was appended to the section text\<close>
  "contributes k lines i =
     (i < length lines \<and>
      section_text (scan_lines k (take (Suc i) lines)) \<noteq> section_text (scan_lines k (take i lines)))"

section \<open>Regular expressions\<close>

text \<open>
  The part of Python's \<^verbatim>\<open>re\<close> that main.py uses, as a backtracking matcher. A pattern is
  a term of type \<open>regex\<close>; every quantifier of main.py but \<^verbatim>\<open>?\<close> is applied to a single
  character class, which is what \<open>Rep\<close> takes. A match state is the character before the
  current position (for \<^verbatim>\<open>\b\<close> and \<^verbatim>\<open>^\<close>), the text from the current position on, and
  the groups captured so far. \<open>ms r ic st\<close> lists the states in which a match of \<open>r\<close>
  begun in \<open>st\<close> can end, in the order in which Python's matcher tries them, so that
  its head is the match Python finds. \<open>ic\<close> is the flag \<^verbatim>\<open>re.IGNORECASE\<close>: the text
  character is lowered before it is compared (the classes of the patterns that main.py
  uses with that flag hold lower-case and caseless characters only).
\<close>

definition is_digit :: "char \<Rightarrow> bool" where
  "is_digit c = (let n = code c in 48 \<le> n \<and> n \<le> 57)"

definition is_upper_az :: "char \<Rightarrow> bool" where
  "is_upper_az c = (let n = code c in 65 \<le> n \<and> n \<le> 90)"

definition is_lower_az :: "char \<Rightarrow> bool" where
  "is_lower_az c = (let n = code c in 97 \<le> n \<and> n \<le> 122)"

definition is_word :: "char \<Rightarrow> bool" where
  \<comment> \<open>\<^verbatim>\<open>\w\<close>: the alphanumeric code points below U+0100, and the underscore\<close>
  "is_word c = (let n = code c in
     (48 \<le> n \<and> n \<le> 57) \<or> (65 \<le> n \<and> n \<le> 90) \<or> n = 95 \<or> (97 \<le> n \<and> n \<le> 122) \<or>
     n = 170 \<or> n = 178 \<or> n = 179 \<or> n = 181 \<or> n = 185 \<or> n = 186 \<or>
     (188 \<le> n \<and> n \<le> 190) \<or> (192 \<le> n \<and> n \<le> 214) \<or> (216 \<le> n \<and> n \<le> 246) \<or>
     248 \<le> n)"

definition not_newline :: "char \<Rightarrow> bool" where
  \<comment> \<open>the dot\<close>
  "not_newline c = (c \<noteq> CHR 0x0A)"

datatype regex =
    Eps
  | Chr char
  | Cls "char \<Rightarrow> bool"
  | Rep bool nat "nat option" "char \<Rightarrow> bool"
  | Bnd
  | Bol
  | Eol
  | Seq regex regex
  | Alt regex regex
  | Opt regex
  | Grp nat regex
  | Ahead regex

type_synonym mstate = "char option \<times> string \<times> (nat \<times> string) list"

definition fold_case :: "bool \<Rightarrow> char \<Rightarrow> char" where
  "fold_case ic c = (if ic then lower_char c else c)"

fun rep_chars :: "(char \<Rightarrow> bool) \<Rightarrow> bool \<Rightarrow> nat \<Rightarrow> nat option \<Rightarrow> (nat \<times> string) list
    \<Rightarrow> char option \<Rightarrow> string \<Rightarrow> mstate list" where
  \<comment> \<open>\<open>{lo,hi}\<close> of a class: greedy (\<open>g\<close>) tries one more character first, lazy tries to stop first\<close>
  "rep_chars P g lo hi caps prev [] = (if lo = 0 then [(prev, [], caps)] else [])"
| "rep_chars P g lo hi caps prev (c # cs) =
     (let more = (if hi \<noteq> Some 0 \<and> P c
                  then rep_chars P g (lo - 1) (map_option (\<lambda>h. h - 1) hi) caps (Some c) cs
                  else []);
          stop = (if lo = 0 then [(prev, c # cs, caps)] else [])
      in if g then more @ stop else stop @ more)"

definition word_at :: "char option \<Rightarrow> bool" where
  "word_at p = (case p of None \<Rightarrow> False | Some c \<Rightarrow> is_word c)"

definition next_char :: "string \<Rightarrow> char option" where
  "next_char s = (case s of [] \<Rightarrow> None | c # _ \<Rightarrow> Some c)"

primrec ms :: "regex \<Rightarrow> bool \<Rightarrow> mstate \<Rightarrow> mstate list" where
  "ms Eps ic st = [st]"
| "ms (Chr x) ic st =
     (case st of (p, s, caps) \<Rightarrow>
        (case s of [] \<Rightarrow> []
         | c # cs \<Rightarrow> if fold_case ic c = fold_case ic x then [(Some c, cs, caps)] else []))"
| "ms (Cls P) ic st =
     (case st of (p, s, caps) \<Rightarrow>
        (case s of [] \<Rightarrow> []
         | c # cs \<Rightarrow> if P (fold_case ic c) then [(Some c, cs, caps)] else []))"
| "ms (Rep g lo hi P) ic st =
     (case st of (p, s, caps) \<Rightarrow> rep_chars (\<lambda>c. P (fold_case ic c)) g lo hi caps p s)"
| "ms Bnd ic st =
     (case st of (p, s, caps) \<Rightarrow> if word_at p \<noteq> word_at (next_char s) then [st] else [])"
| "ms Bol ic st = (case st of (p, s, caps) \<Rightarrow> if p = None then [st] else [])"
| "ms Eol ic st =
     (case st of (p, s, caps) \<Rightarrow> if s = [] \<or> s = [CHR 0x0A] then [st] else [])"
| "ms (Seq a b) ic st = concat (map (ms b ic) (ms a ic st))"
| "ms (Alt a b) ic st = ms a ic st @ ms b ic st"
| "ms (Opt a) ic st = ms a ic st @ [st]"
| "ms (Grp n a) ic st =
     (case st of (p, s, caps) \<Rightarrow>
        map (\<lambda>(p', s', caps'). (p', s', (n, take (length s - length s') s) # caps'))
          (ms a ic st))"
| "ms (Ahead a) ic st = (if ms a ic st = [] then [] else [st])"

record rmatch =
  before :: string
  matched :: string
  groups :: "(nat \<times> string) list"
  after :: string

fun search_from :: "regex \<Rightarrow> bool \<Rightarrow> string \<Rightarrow> char option \<Rightarrow> string \<Rightarrow> rmatch option" where
  \<comment> \<open>the leftmost start at which the pattern matches; \<open>pre\<close> is the text passed, reversed\<close>
  "search_from r ic pre p [] =
     (case ms r ic (p, [], []) of
        [] \<Rightarrow> None
      | (p', s', caps) # _ \<Rightarrow>
          Some \<lparr>before = rev pre, matched = [], groups = caps, after = s'\<rparr>)"
| "search_from r ic pre p (c # cs) =
     (case ms r ic (p, c # cs, []) of
        [] \<Rightarrow> search_from r ic (c # pre) (Some c) cs
      | (p', s', caps) # _ \<Rightarrow>
          Some \<lparr>before = rev pre, matched = take (length (c # cs) - length s') (c # cs),
                groups = caps, after = s'\<rparr>)"

definition re_search :: "regex \<Rightarrow> bool \<Rightarrow> string \<Rightarrow> rmatch option" where
  "re_search r ic s = search_from r ic [] None s"

definition group :: "rmatch \<Rightarrow> nat \<Rightarrow> string option" where
  \<comment> \<open>\<^verbatim>\<open>m.group(n)\<close> for \<open>n > 0\<close>: None when the group took no part in the match\<close>
  "group m n = map_of (groups m) n"

primrec ngroups :: "regex \<Rightarrow> nat" where
  "ngroups Eps = 0"
| "ngroups (Chr x) = 0"
| "ngroups (Cls P) = 0"
| "ngroups (Rep g lo hi P) = 0"
| "ngroups Bnd = 0"
| "ngroups Bol = 0"
| "ngroups Eol = 0"
| "ngroups (Seq a b) = max (ngroups a) (ngroups b)"
| "ngroups (Alt a b) = max (ngroups a) (ngroups b)"
| "ngroups (Opt a) = ngroups a"
| "ngroups (Grp n a) = max n (ngroups a)"
| "ngroups (Ahead a) = ngroups a"

text \<open>
  \<^verbatim>\<open>re.split\<close>: the text between the matches, and after each match the value of every group
  of the pattern, which is None for a group that took no part in the match. Each pattern
  that main.py splits on consumes a character; a match that consumes none is passed over
  here.
\<close>

fun split_from :: "regex \<Rightarrow> bool \<Rightarrow> string \<Rightarrow> char option \<Rightarrow> string \<Rightarrow> string option list" where
  "split_from r ic piece p [] = [Some (rev piece)]"
| "split_from r ic piece p (c # cs) =
     (case ms r ic (p, c # cs, []) of
        [] \<Rightarrow> split_from r ic (c # piece) (Some c) cs
      | (p', s', caps) # _ \<Rightarrow>
          if length s' < length (c # cs)
          then Some (rev piece) # map (map_of caps) [1 ..< Suc (ngroups r)] @ split_from r ic [] p' s'
          else split_from r ic (c # piece) (Some c) cs)"

definition re_split :: "regex \<Rightarrow> bool \<Rightarrow> string \<Rightarrow> string option list" where
  "re_split r ic s = split_from r ic [] None s"

text \<open>\<^verbatim>\<open>re.findall\<close> for a pattern with one group: the value of the group at each match.\<close>

fun findall_from :: "regex \<Rightarrow> bool \<Rightarrow> char option \<Rightarrow> string \<Rightarrow> string list" where
  "findall_from r ic p [] = []"
| "findall_from r ic p (c # cs) =
     (case ms r ic (p, c # cs, []) of
        [] \<Rightarrow> findall_from r ic (Some c) cs
      | (p', s', caps) # _ \<Rightarrow>
          if length s' < length (c # cs)
          then (case map_of caps 1 of None \<Rightarrow> [] | Some g \<Rightarrow> g) # findall_from r ic p' s'
          else findall_from r ic (Some c) cs)"

definition re_findall :: "regex \<Rightarrow> bool \<Rightarrow> string \<Rightarrow> string list" where
  "re_findall r ic s = findall_from r ic None s"

fun seqs :: "regex list \<Rightarrow> regex" where
  "seqs [] = Eps"
| "seqs [r] = r"
| "seqs (r # rs) = Seq r (seqs rs)"

fun alts :: "regex list \<Rightarrow> regex" where
  "alts [] = Cls (\<lambda>c. False)"
| "alts [r] = r"
| "alts (r # rs) = Alt r (alts rs)"

definition lit :: "string \<Rightarrow> regex" where
  \<comment> \<open>a pattern without special characters, and \<^verbatim>\<open>re.escape(s)\<close> for any \<open>s\<close>\<close>
  "lit s = seqs (map Chr s)"

definition dotted :: "string \<Rightarrow> regex" where
  \<comment> \<open>a keyword pasted into a pattern unescaped: its dots match any character but newline\<close>
  "dotted s = seqs (map (\<lambda>c. if c = CHR ''.'' then Cls not_newline else Chr c) s)"

definition digits :: "nat \<Rightarrow> regex" where
  \<comment> \<open>\<^verbatim>\<open>\d{n}\<close>\<close>
  "digits n = Rep True n (Some n) is_digit"

section \<open>Education\<close>

record education_record =
  degree :: string
  institution :: string
  year :: string

definition truthy :: "string option \<Rightarrow> bool" where
  \<comment> \<open>the truth value of a value that is a string or None\<close>
  "truthy x = (case x of None \<Rightarrow> False | Some s \<Rightarrow> s \<noteq> [])"

definition or_else :: "string option \<Rightarrow> string \<Rightarrow> string" where
  \<comment> \<open>\<^verbatim>\<open>x or d\<close>\<close>
  "or_else x d = (case x of None \<Rightarrow> d | Some s \<Rightarrow> if s = [] then d else s)"

fun first_search :: "regex list \<Rightarrow> bool \<Rightarrow> string \<Rightarrow> rmatch option" where
  \<comment> \<open>the loops that search one pattern after the other and break at the first match\<close>
  "first_search [] ic s = None"
| "first_search (r # rs) ic s =
     (case re_search r ic s of None \<Rightarrow> first_search rs ic s | Some m \<Rightarrow> Some m)"

definition degree_indicators :: "string list" where
  "degree_indicators =
     [''bachelor'', ''master'', ''phd'', ''b.tech'', ''m.tech'', ''b.e'', ''m.e'', ''mba'',
      ''b.sc'', ''m.sc'', ''b.com'', ''m.com'', ''b.a'', ''m.a'']"

definition education_split :: regex where
  \<comment> \<open>\<^verbatim>\<open>\n(?=\d{4}|\b(?:bachelor|...|m.a)\b)\<close>\<close>
  "education_split =
     Seq (Chr CHR 0x0A)
       (Ahead (Alt (digits 4) (seqs [Bnd, alts (map dotted degree_indicators), Bnd])))"

definition degree_pattern :: "string \<Rightarrow> regex" where
  \<comment> \<open>\<^verbatim>\<open>\b\<close> + indicator + \<^verbatim>\<open>[s]?\b.*?(?:\n|$)\<close>\<close>
  "degree_pattern indicator =
     seqs [Bnd, dotted indicator, Opt (Cls (\<lambda>c. c = CHR ''s'')), Bnd,
           Rep False 0 None not_newline, Alt (Chr CHR 0x0A) Eol]"

definition school_words :: regex where
  \<comment> \<open>\<^verbatim>\<open>(?:university|college|institute|school)\<close>\<close>
  "school_words = alts (map lit [''university'', ''college'', ''institute'', ''school''])"

definition word_or_space :: "char \<Rightarrow> bool" where
  \<comment> \<open>\<^verbatim>\<open>[\w\s]\<close>\<close>
  "word_or_space c = (is_word c \<or> isspace c)"

definition institution_patterns :: "regex list" where
  \<comment> \<open>\<^verbatim>\<open>\b(?:university|college|institute|school) of [\w\s]+\<close> and
      \<^verbatim>\<open>[\w\s]+ (?:university|college|institute|school)\b\<close>\<close>
  "institution_patterns =
     [seqs [Bnd, school_words, lit '' of '', Rep True 1 None word_or_space],
      seqs [Rep True 1 None word_or_space, Chr CHR '' '', school_words, Bnd]]"

definition year_token :: regex where
  \<comment> \<open>\<^verbatim>\<open>\b20\d{2}\b|\b19\d{2}\b\<close>\<close>
  "year_token =
     Alt (seqs [Bnd, lit ''20'', digits 2, Bnd]) (seqs [Bnd, lit ''19'', digits 2, Bnd])"

definition year_pattern :: regex where
  \<comment> \<open>\<^verbatim>\<open>(\b20\d{2}\b|\b19\d{2}\b)(?:\s*-\s*(?:\b20\d{2}\b|\b19\d{2}\b|present|current|now))?\<close>\<close>
  "year_pattern =
     Seq (Grp 1 year_token)
       (Opt (seqs [Rep True 0 None isspace, Chr CHR ''-'', Rep True 0 None isspace,
                   Alt year_token (alts (map lit [''present'', ''current'', ''now'']))]))"

definition education_entry :: "string \<Rightarrow> education_record list" where
  \<comment> \<open>the body of the loop over the entries: the records it appends\<close>
  "education_entry entry =
     (if length (strip entry) < 10 then []
      else
        let degree = map_option (\<lambda>m. strip (matched m))
                       (first_search (map degree_pattern degree_indicators) True entry);
            institution = map_option (\<lambda>m. strip (matched m))
                            (first_search institution_patterns True entry);
            year = map_option matched (re_search year_pattern True entry)
        in if truthy degree \<or> truthy institution
           then [\<lparr>degree = or_else degree ''Degree not specified'',
                  institution = or_else institution ''Institution not specified'',
                  year = or_else year ''Year not specified''\<rparr>]
           else [])"

definition strings_of :: "string option list \<Rightarrow> string list" where
  \<comment> \<open>the result of \<^verbatim>\<open>re.split\<close> for a pattern without groups: every item is a string\<close>
  "strings_of xs = map (\<lambda>x. case x of None \<Rightarrow> [] | Some s \<Rightarrow> s) xs"

definition education_entries :: "string \<Rightarrow> string list" where
  "education_entries section = strings_of (re_split education_split False section)"

definition extract_education :: "string \<Rightarrow> education_record list" where
  "extract_education text =
     (let education_section_text = find_section Education text
      in if education_section_text \<noteq> []
         then concat (map education_entry (education_entries education_section_text))
         else [])"

section \<open>Experience\<close>

datatype error = AttributeError | HTTPException nat

record experience_record =
  title :: string
  company :: string
  duration :: string

definition month_names :: regex where
  \<comment> \<open>\<^verbatim>\<open>jan|feb|mar|apr|may|jun|jul|aug|sep|oct|nov|dec\<close>\<close>
  "month_names =
     alts (map lit [''jan'', ''feb'', ''mar'', ''apr'', ''may'', ''jun'', ''jul'', ''aug'',
                    ''sep'', ''oct'', ''nov'', ''dec''])"

definition dash :: regex where
  \<comment> \<open>\<^verbatim>\<open>\s*[-...]\s*\<close>: of the three dashes of the class only the hyphen is below U+0100\<close>
  "dash = seqs [Rep True 0 None isspace, Cls (\<lambda>c. c = CHR ''-''), Rep True 0 None isspace]"

definition date_range :: "bool \<Rightarrow> regex" where
  \<comment> \<open>\<^verbatim>\<open>date_pattern\<close> (its three groups capture) and \<^verbatim>\<open>duration_pattern\<close> (they are
      \<^verbatim>\<open>(?:...)\<close>), otherwise the same string:
      month year - month year, or year - year, or year - present|current|now\<close>
  "date_range capture =
     (let grp = (\<lambda>n r. if capture then Grp n r else r)
      in Alt (seqs [Bnd, grp 1 month_names, Rep True 0 None is_lower_az, Chr CHR '' '', digits 4,
                    dash, grp 2 month_names, Rep True 0 None is_lower_az, Chr CHR '' '', digits 4])
          (Alt (seqs [Bnd, digits 4, dash, digits 4])
               (seqs [Bnd, digits 4, dash,
                      grp 3 (alts (map lit [''present'', ''current'', ''now''])), Bnd])))"

definition date_pattern :: regex where
  "date_pattern = date_range True"

definition duration_pattern :: regex where
  "duration_pattern = date_range False"

definition year_line_split :: regex where
  \<comment> \<open>\<^verbatim>\<open>\n(?=.*\b(?:19|20)\d{2}\b)\<close>\<close>
  "year_line_split =
     Seq (Chr CHR 0x0A)
       (Ahead (seqs [Rep True 0 None not_newline, Bnd, Alt (lit ''19'') (lit ''20''),
                     digits 2, Bnd]))"

definition role_nouns :: "string list" where
  "role_nouns =
     [''Developer'', ''Engineer'', ''Manager'', ''Designer'', ''Analyst'', ''Consultant'',
      ''Director'', ''Lead'', ''Architect'', ''Specialist'', ''Intern'']"

definition title_pattern :: regex where
  \<comment> \<open>\<^verbatim>\<open>^([A-Z][A-Za-z\s]{2,30}(?:Developer|...|Intern))\<close>\<close>
  "title_pattern =
     Seq Bol
       (Grp 1 (seqs [Cls is_upper_az,
                     Rep True 2 (Some 30) (\<lambda>c. is_upper_az c \<or> is_lower_az c \<or> isspace c),
                     alts (map lit role_nouns)]))"

definition company_patterns :: "regex list" where
  \<comment> \<open>\<^verbatim>\<open>(?:at|with|for) ([\w\s]+)\<close>, \<^verbatim>\<open>^([\w\s]+) (?:Inc\.|LLC|Ltd\.)\<close> and
      \<^verbatim>\<open>^([\w\s,]+)(?:\n|$)\<close>\<close>
  "company_patterns =
     [seqs [alts (map lit [''at'', ''with'', ''for'']), Chr CHR '' '',
            Grp 1 (Rep True 1 None word_or_space)],
      seqs [Bol, Grp 1 (Rep True 1 None word_or_space), Chr CHR '' '',
            alts (map lit [''Inc.'', ''LLC'', ''Ltd.''])],
      seqs [Bol, Grp 1 (Rep True 1 None (\<lambda>c. word_or_space c \<or> c = CHR '','')),
            Alt (Chr CHR 0x0A) Eol]]"

definition experience_entries :: "string \<Rightarrow> string option list" where
  \<comment> \<open>the split on \<^verbatim>\<open>date_pattern\<close> and, when it gives one item, on the lines with a year\<close>
  "experience_entries section =
     (let entries = re_split date_pattern True section
      in if length entries \<le> 1 then re_split year_line_split False section else entries)"

definition experience_entry :: "string \<Rightarrow> experience_record list" where
  "experience_entry entry =
     (if length (strip entry) < 15 \<or>
         lower (strip entry) \<in> set [''experience'', ''work experience'', ''employment history'']
      then []
      else
        let title_candidates = re_findall title_pattern False entry;
            title = (case title_candidates of [] \<Rightarrow> None | t # _ \<Rightarrow> Some (strip t));
            company = (case first_search company_patterns False entry of
                         None \<Rightarrow> None
                       | Some m \<Rightarrow> map_option strip (group m 1));
            duration = map_option matched (re_search duration_pattern True entry)
        in if truthy title \<or> truthy company
           then [\<lparr>title = or_else title ''Position not specified'',
                  company = or_else company ''Company not specified'',
                  duration = or_else duration ''Duration not specified''\<rparr>]
           else [])"

fun experience_loop :: "string option list \<Rightarrow> experience_record list
    \<Rightarrow> error + experience_record list" where
  \<comment> \<open>\<^verbatim>\<open>entry.strip()\<close> raises AttributeError on an item that is None\<close>
  "experience_loop [] experience = Inr experience"
| "experience_loop (None # entries) experience = Inl AttributeError"
| "experience_loop (Some entry # entries) experience =
     experience_loop entries (experience @ experience_entry entry)"

definition extract_experience :: "string \<Rightarrow> error + experience_record list" where
  "extract_experience text =
     (let experience_section_text = find_section Experience text
      in if experience_section_text \<noteq> []
         then experience_loop (experience_entries experience_section_text) []
         else Inr [])"

section \<open>Projects\<close>

record project_record =
  project_name :: string
  description :: string

definition project_split :: regex where
  \<comment> \<open>\<^verbatim>\<open>\n(?=B|\*|\-|\d+\.|\d+\)|\w+:)\<close>, where B is the bullet U+2022, which no
      character below U+0100 matches\<close>
  "project_split =
     Seq (Chr CHR 0x0A)
       (Ahead (alts [Cls (\<lambda>c. False), Chr CHR ''*'', Chr CHR ''-'',
                     Seq (Rep True 1 None is_digit) (Chr CHR ''.''),
                     Seq (Rep True 1 None is_digit) (Chr CHR '')''),
                     Seq (Rep True 1 None is_word) (Chr CHR '':'')]))"

definition strip_chars :: "string \<Rightarrow> string \<Rightarrow> string" where
  \<comment> \<open>\<^verbatim>\<open>s.strip(chars)\<close>\<close>
  "strip_chars chars s =
     rev (dropWhile (\<lambda>c. c \<in> set chars) (rev (dropWhile (\<lambda>c. c \<in> set chars) s)))"

fun join_nl :: "string list \<Rightarrow> string" where
  \<comment> \<open>\<^verbatim>\<open>'\n'.join(xs)\<close>\<close>
  "join_nl [] = []"
| "join_nl [x] = x"
| "join_nl (x # xs) = x @ CHR 0x0A # join_nl xs"

definition project_entry :: "string \<Rightarrow> project_record list" where
  "project_entry raw =
     (let entry = strip raw
      in if length entry < 15 \<or>
            lower entry \<in> set [''projects'', ''personal projects'', ''academic projects'']
         then []
         else (case split_nl entry of
                 [] \<Rightarrow> []
               | first # others \<Rightarrow>
                   let name = strip_chars [CHR ''*'', CHR ''-'', CHR 0x09, CHR '' '', CHR ''.'', CHR '')'']
                                first;
                       description = (if others \<noteq> [] then strip (join_nl others) else [])
                   in if name \<noteq> []
                      then [\<lparr>project_name = name, description = description\<rparr>]
                      else []))"

definition project_entries :: "string \<Rightarrow> string list" where
  "project_entries section = strings_of (re_split project_split False section)"

definition extract_projects :: "string \<Rightarrow> project_record list" where
  "extract_projects text =
     (let project_section_text = find_section Projects text
      in if project_section_text \<noteq> []
         then concat (map project_entry (project_entries project_section_text))
         else [])"

section \<open>Name, email, phone and skills\<close>

definition name_ok :: "string \<Rightarrow> bool" where
  \<comment> \<open>the test of \<^verbatim>\<open>extract_name\<close> on a line\<close>
  "name_ok line =
     (5 < length line \<and> length line < 40 \<and>
      \<not> any_in [''@'', ''http'', ''resume'', ''cv'', ''email'', ''phone''] (lower line))"

fun name_loop :: "string list \<Rightarrow> string option" where
  "name_loop [] = None"
| "name_loop (line # lines) = (if name_ok line then Some (strip line) else name_loop lines)"

definition extract_name :: "string \<Rightarrow> string option" where
  "extract_name text = name_loop (take 5 (split_nl text))"

definition email_pattern :: regex where
  \<comment> \<open>\<^verbatim>\<open>[a-zA-Z0-9._%+-]+@[a-zA-Z0-9.-]+\.[a-zA-Z]{2,}\<close>\<close>
  "email_pattern =
     seqs [Rep True 1 None
             (\<lambda>c. is_lower_az c \<or> is_upper_az c \<or> is_digit c \<or> c \<in> set ''._%+-''),
           Chr CHR ''@'',
           Rep True 1 None (\<lambda>c. is_lower_az c \<or> is_upper_az c \<or> is_digit c \<or> c \<in> set ''.-''),
           Chr CHR ''.'',
           Rep True 2 None (\<lambda>c. is_lower_az c \<or> is_upper_az c)]"

definition extract_email :: "string \<Rightarrow> string option" where
  "extract_email text = map_option matched (re_search email_pattern False text)"

definition separator :: "char \<Rightarrow> bool" where
  \<comment> \<open>\<^verbatim>\<open>[-.\s]\<close>\<close>
  "separator c = (c = CHR ''-'' \<or> c = CHR ''.'' \<or> isspace c)"

definition phone_pattern :: regex where
  \<comment> \<open>\<^verbatim>\<open>(\+\d{1,3}[-.\s]?)?(\(?\d{3}\)?[-.\s]?\d{3}[-.\s]?\d{4})\<close>\<close>
  "phone_pattern =
     Seq (Opt (Grp 1 (seqs [Chr CHR ''+'', Rep True 1 (Some 3) is_digit, Opt (Cls separator)])))
       (Grp 2 (seqs [Opt (Chr CHR ''(''), digits 3, Opt (Chr CHR '')''), Opt (Cls separator),
                     digits 3, Opt (Cls separator), digits 4]))"

definition extract_phone :: "string \<Rightarrow> string option" where
  "extract_phone text = map_option matched (re_search phone_pattern False text)"

definition skill_keywords :: "string list" where
  "skill_keywords =
     [''python'', ''javascript'', ''react'', ''angular'', ''vue'', ''node.js'', ''express'',
      ''mongodb'', ''sql'', ''mysql'', ''postgresql'', ''nosql'', ''firebase'', ''aws'', ''azure'',
      ''gcp'', ''docker'', ''kubernetes'', ''ci/cd'', ''jenkins'', ''git'', ''github'', ''gitlab'',
      ''html'', ''css'', ''sass'', ''less'', ''bootstrap'', ''tailwind'', ''typescript'',
      ''java'', ''c++'', ''c#'', ''.net'', ''php'', ''ruby'', ''go'', ''rust'', ''swift'',
      ''android'', ''ios'', ''flutter'', ''react native'', ''electron'',
      ''machine learning'', ''deep learning'', ''ai'', ''data science'', ''data analysis'',
      ''tensorflow'', ''pytorch'', ''keras'', ''scikit-learn'', ''pandas'', ''numpy'',
      ''agile'', ''scrum'', ''kanban'', ''jira'', ''confluence'',
      ''communication'', ''leadership'', ''project management'', ''team work'',
      ''problem solving'', ''critical thinking'', ''time management'']"

definition skill_pattern :: "string \<Rightarrow> regex" where
  \<comment> \<open>\<^verbatim>\<open>\b\<close> + \<^verbatim>\<open>re.escape(skill)\<close> + \<^verbatim>\<open>\b\<close>\<close>
  "skill_pattern skill = seqs [Bnd, lit skill, Bnd]"

definition skill_found :: "string \<Rightarrow> string \<Rightarrow> bool" where
  "skill_found text skill = (re_search (skill_pattern skill) False (lower text) \<noteq> None)"

fun skills_loop :: "string \<Rightarrow> string list \<Rightarrow> string list \<Rightarrow> string list" where
  "skills_loop text [] found_skills = found_skills"
| "skills_loop text (skill # rest) found_skills =
     skills_loop text rest
       (if skill_found text skill then found_skills @ [skill] else found_skills)"

definition extract_skills :: "string \<Rightarrow> string list" where
  "extract_skills text = skills_loop text skill_keywords []"

section \<open>The pipeline\<close>

record parsed_data =
  name :: "string option"
  email :: "string option"
  phone :: "string option"
  skills :: "string list"
  education :: "education_record list"
  experience :: "experience_record list"
  projects :: "project_record list"

definition parse_resume :: "string \<Rightarrow> error + parsed_data" where
  \<comment> \<open>the body of the \<^verbatim>\<open>try\<close> block of \<^verbatim>\<open>parse_resume\<close> from the extracted text on: the guard
      \<^verbatim>\<open>if not text or len(text) < 10: raise HTTPException(status_code=422, ...)\<close>, the seven
      calls and the dictionary built of their results; an exception of a call leaves the
      sequence\<close>
  "parse_resume text =
     (if text = [] \<or> length text < 10 then Inl (HTTPException 422)
      else case extract_experience text of
        Inl e \<Rightarrow> Inl e
      | Inr exps \<Rightarrow>
          Inr \<lparr>name = extract_name text, email = extract_email text,
               phone = extract_phone text, skills = extract_skills text,
               education = extract_education text, experience = exps,
               projects = extract_projects text\<rparr>)"

section \<open>Inputs and predicates of the properties\<close>

definition scenario_text :: string where
  \<comment> \<open>the resume of the scenario\<close>
  "scenario_text =
     ''Jane Smith\<newline>jane.smith@mail.com\<newline>555-222-3344\<newline>\<newline>Education\<newline>BS Computer Science\<newline>State University\<newline>2019\<newline>\<newline>Experience\<newline>Software Engineer at Acme Corp\<newline>2020 - Present\<newline>''"



section \<open>Character classes by bits\<close>

text \<open>
  The classes above are stated on code points. For evaluation each is restated on the
  eight bits of the character, least significant first.
\<close>

lemma isspace_bits [code]:
  "isspace (Char b0 b1 b2 b3 b4 b5 b6 b7) \<longleftrightarrow>
     (if b7 then (\<not> b6 \<and> (if b5 then (\<not> b4 \<and> (\<not> b3 \<and> (\<not> b2 \<and> (\<not> b1 \<and> \<not> b0)))) else (\<not> b4 \<and> (\<not> b3 \<and> (b2 \<and> (\<not> b1 \<and> b0)))))) else (\<not> b6 \<and> (if b5 then (\<not> b4 \<and> (\<not> b3 \<and> (\<not> b2 \<and> (\<not> b1 \<and> \<not> b0)))) else (if b4 then (b3 \<and> b2) else (b3 \<and> (if b2 then \<not> b1 else (b1 \<or> b0)))))))"
  by (cases b0; cases b1; cases b2; cases b3; cases b4; cases b5; cases b6; cases b7;
      simp add: isspace_def code_def)

lemma is_digit_bits [code]:
  "is_digit (Char b0 b1 b2 b3 b4 b5 b6 b7) \<longleftrightarrow>
     (\<not> b7 \<and> (\<not> b6 \<and> (b5 \<and> (b4 \<and> (\<not> b3 \<or> (\<not> b2 \<and> \<not> b1))))))"
  by (cases b0; cases b1; cases b2; cases b3; cases b4; cases b5; cases b6; cases b7;
      simp add: is_digit_def code_def)

lemma is_upper_az_bits [code]:
  "is_upper_az (Char b0 b1 b2 b3 b4 b5 b6 b7) \<longleftrightarrow>
     (\<not> b7 \<and> (b6 \<and> (\<not> b5 \<and> (if b4 then (\<not> b3 \<or> (\<not> b2 \<and> (\<not> b1 \<or> \<not> b0))) else (b3 \<or> (b2 \<or> (b1 \<or> b0)))))))"
  by (cases b0; cases b1; cases b2; cases b3; cases b4; cases b5; cases b6; cases b7;
      simp add: is_upper_az_def code_def)

lemma is_lower_az_bits [code]:
  "is_lower_az (Char b0 b1 b2 b3 b4 b5 b6 b7) \<longleftrightarrow>
     (\<not> b7 \<and> (b6 \<and> (b5 \<and> (if b4 then (\<not> b3 \<or> (\<not> b2 \<and> (\<not> b1 \<or> \<not> b0))) else (b3 \<or> (b2 \<or> (b1 \<or> b0)))))))"
  by (cases b0; cases b1; cases b2; cases b3; cases b4; cases b5; cases b6; cases b7;
      simp add: is_lower_az_def code_def)

lemma is_word_bits [code]:
  "is_word (Char b0 b1 b2 b3 b4 b5 b6 b7) \<longleftrightarrow>
     (if b7 then (if b6 then (\<not> b4 \<or> (b3 \<or> (\<not> b2 \<or> (\<not> b1 \<or> \<not> b0)))) else (b5 \<and> (if b4 then (if b3 then (if b2 then (\<not> b1 \<or> \<not> b0) else (if b1 then \<not> b0 else b0)) else (if b2 then (\<not> b1 \<and> b0) else b1)) else (b3 \<and> (\<not> b2 \<and> (b1 \<and> \<not> b0)))))) else (if b6 then (if b5 then (if b4 then (\<not> b3 \<or> (\<not> b2 \<and> (\<not> b1 \<or> \<not> b0))) else (b3 \<or> (b2 \<or> (b1 \<or> b0)))) else (if b4 then (\<not> b3 \<or> (if b2 then (b1 \<and> b0) else (\<not> b1 \<or> \<not> b0))) else (b3 \<or> (b2 \<or> (b1 \<or> b0))))) else (b5 \<and> (b4 \<and> (\<not> b3 \<or> (\<not> b2 \<and> \<not> b1))))))"
  by (cases b0; cases b1; cases b2; cases b3; cases b4; cases b5; cases b6; cases b7;
      simp add: is_word_def code_def)

lemma lower_char_bits [code]:
  "lower_char (Char b0 b1 b2 b3 b4 b5 b6 b7) =
     (if (if b7 then (b6 \<and> (\<not> b5 \<and> (\<not> b4 \<or> (\<not> b2 \<or> (\<not> b1 \<or> \<not> b0))))) else (b6 \<and> (\<not> b5 \<and> (if b4 then (\<not> b3 \<or> (\<not> b2 \<and> (\<not> b1 \<or> \<not> b0))) else (b3 \<or> (b2 \<or> (b1 \<or> b0)))))))
      then Char b0 b1 b2 b3 b4 True b6 b7 else Char b0 b1 b2 b3 b4 b5 b6 b7)"
  by (cases b0; cases b1; cases b2; cases b3; cases b4; cases b5; cases b6; cases b7;
      simp add: lower_char_def code_def char_of_def bit_0)

section \<open>The scenario\<close>

lemma scenario_education:
  "extract_education scenario_text =
     [\<lparr>degree = ''Degree not specified'',
       institution = ''Education\<newline>BS Computer Science\<newline>State University'',
       year = ''Year not specified''\<rparr>]"
  by code_simp

lemma scenario_experience_entries:
  "experience_entries (find_section Experience scenario_text) =
     [Some ''Experience\<newline>Software Engineer at Acme Corp\<newline>'', None, None,
      Some ''Present'', Some ''\<newline>'']"
  by code_simp

text \<open>
  C1 (the seven extractors return and never raise). On the resume of the scenario the split
  on \<^verbatim>\<open>date_pattern\<close> yields the value None for the groups that took no part in the match
  of \<open>2020 - Present\<close>; \<^verbatim>\<open>extract_experience\<close> calls \<^verbatim>\<open>strip\<close> on it and raises
  AttributeError, and with it the whole sequence of calls.
\<close>

theorem extract_experience_raises:
  "extract_experience scenario_text = Inl AttributeError \<and>
   parse_resume scenario_text = Inl AttributeError"
  by code_simp

text \<open>
  C2 (the scenario), as the claim states it: one education record whose year contains
  \<open>2019\<close>. The only record has the year \<open>Year not specified\<close>.
\<close>

theorem scenario_year_counterexample:
  "length (extract_education scenario_text) = 1 \<and>
   \<not> sub_in ''2019'' (year (extract_education scenario_text ! 0))"
  by (simp add: scenario_education)

text \<open>
  C2, amended: on the resume of the scenario the name, the email and the phone are found, and
  there is exactly one education record: no degree, the institution is the section up to
  \<open>State University\<close>, and the year is the sentinel, since the line \<open>2019\<close> is an entry of its
  own that is shorter than ten characters. (The experience part is left to C1.)
\<close>

theorem scenario_fields:
  "extract_name scenario_text = Some ''Jane Smith'' \<and>
   extract_email scenario_text = Some ''jane.smith@mail.com'' \<and>
   extract_phone scenario_text = Some ''555-222-3344'' \<and>
   education_entries (find_section Education scenario_text) =
     [''Education\<newline>BS Computer Science\<newline>State University'', ''2019\<newline>''] \<and>
   extract_education scenario_text =
     [\<lparr>degree = ''Degree not specified'',
       institution = ''Education\<newline>BS Computer Science\<newline>State University'',
       year = ''Year not specified''\<rparr>]"
  by code_simp

text \<open>
  C3 (splitting an entry never consumes the anchor, the pieces rebuild the section). In an
  experience section with a date range the split on \<^verbatim>\<open>date_pattern\<close> removes the range
  \<open>2020 - 2021\<close> from the text and puts the values of the three groups, here None, in its
  place.
\<close>

theorem experience_split_consumes_anchor:
  "experience_entries ''Experience\<newline>2020 - 2021 Acme\<newline>'' =
     [Some ''Experience\<newline>'', None, None, None, Some '' Acme\<newline>'']"
  by code_simp

section \<open>The section loop\<close>

lemma scan_lines_snoc: "scan_lines k (xs @ [l]) = scan_step k (scan_lines k xs) l"
  by (simp add: scan_lines_def)

lemma scan_lines_append:
  "scan_lines k (xs @ ys) = foldl (scan_step k) (scan_lines k xs) ys"
  by (simp add: scan_lines_def)

lemma scan_lines_take_Suc:
  "i < length lines \<Longrightarrow>
   scan_lines k (take (Suc i) lines) = scan_step k (scan_lines k (take i lines)) (lines ! i)"
  by (simp add: take_Suc_conv_app_nth scan_lines_snoc)

lemma stopped_step: "stopped st \<Longrightarrow> scan_step k st l = st"
  by (simp add: scan_step_def)

lemma stopped_foldl: "stopped st \<Longrightarrow> foldl (scan_step k) st ls = st"
  by (induction ls) (simp_all add: stopped_step)

lemma step_text_grows: "\<exists>r. section_text (scan_step k st l) = section_text st @ r"
  by (simp add: scan_step_def)

lemma foldl_text_grows: "\<exists>r. section_text (foldl (scan_step k) st ls) = section_text st @ r"
proof (induction ls arbitrary: st)
  case Nil
  then show ?case by simp
next
  case (Cons l ls)
  obtain r1 where r1: "section_text (scan_step k st l) = section_text st @ r1"
    using step_text_grows by blast
  obtain r2 where "section_text (foldl (scan_step k) (scan_step k st l) ls) =
      section_text (scan_step k st l) @ r2"
    using Cons.IH by blast
  with r1 show ?case by simp
qed

lemma header_step:
  "\<not> stopped st \<Longrightarrow> header_line k l \<Longrightarrow>
   scan_step k st l = st\<lparr>in_section := True, section_text := section_text st @ l @ [CHR 0x0A]\<rparr>"
  by (simp add: scan_step_def)

text \<open>
  C10 (a line with a header keyword of the open section's own kind is appended and never
  closes the section): when the section of kind \<open>k\<close> is open before line \<open>i\<close> and line \<open>i\<close>
  is short and holds one of the keywords of \<open>k\<close>, the section is still open after the line,
  the line and a newline are appended to its text, and the text of the whole document
  begins with that. Nothing is asked of the end keywords: in the witness the line
  \<open>Academic Projects\<close> holds the end keyword \<open>projects\<close> of the education section.
\<close>

theorem own_header_is_appended:
  assumes "i < length lines"
    and "is_open (scan_lines k (take i lines))"
    and "header_line k (lines ! i)"
  shows "is_open (scan_lines k (take (Suc i) lines)) \<and>
         section_text (scan_lines k (take (Suc i) lines)) =
           section_text (scan_lines k (take i lines)) @ lines ! i @ [CHR 0x0A] \<and>
         contributes k lines i \<and>
         (\<exists>rest. section_text (scan_lines k lines) =
            section_text (scan_lines k (take i lines)) @ lines ! i @ [CHR 0x0A] @ rest)"
proof -
  let ?st = "scan_lines k (take i lines)"
  let ?st' = "scan_lines k (take (Suc i) lines)"
  have ns: "\<not> stopped ?st" using assms(2) by (simp add: is_open_def)
  have st': "?st' = ?st\<lparr>in_section := True, section_text := section_text ?st @ lines ! i @ [CHR 0x0A]\<rparr>"
    using assms(1) assms(3) ns by (simp add: scan_lines_take_Suc header_step)
  have a: "is_open ?st'" using st' ns by (simp add: is_open_def)
  have b: "section_text ?st' = section_text ?st @ lines ! i @ [CHR 0x0A]"
    using st' by simp
  have c: "contributes k lines i" using assms(1) b by (simp add: contributes_def)
  have "scan_lines k lines = foldl (scan_step k) ?st' (drop (Suc i) lines)"
    by (metis append_take_drop_id scan_lines_append)
  then obtain r where "section_text (scan_lines k lines) = section_text ?st' @ r"
    using foldl_text_grows by metis
  with b have d: "\<exists>rest. section_text (scan_lines k lines) =
            section_text ?st @ lines ! i @ [CHR 0x0A] @ rest" by simp
  from a b c d show ?thesis by blast
qed

theorem own_header_is_appended_witness:
  "end_line Education ''Academic Projects'' \<and>
   is_open (scan_lines Education (take 2 [''Education'', ''Academic Projects'', ''Thesis''])) \<and>
   section_text (scan_lines Education [''Education'', ''Academic Projects'', ''Thesis'']) =
     ''Education\<newline>Academic Projects\<newline>Thesis\<newline>''"
proof -
  let ?ls = "[''Education'', ''Academic Projects'', ''Thesis'']"
  have h1: "(1::nat) < length ?ls" by simp
  have h2: "is_open (scan_lines Education (take 1 ?ls))" by code_simp
  have h3: "header_line Education (?ls ! 1)" by code_simp
  have e: "end_line Education ''Academic Projects''" by code_simp
  have t: "section_text (scan_lines Education ?ls) =
     ''Education\<newline>Academic Projects\<newline>Thesis\<newline>''" by code_simp
  from own_header_is_appended [OF h1 h2 h3] have "is_open (scan_lines Education (take (Suc 1) ?ls))"
    by blast
  then have "is_open (scan_lines Education (take 2 ?ls))" by (simp add: numeral_2_eq_2)
  with e t show ?thesis by blast
qed

lemma end_step:
  "in_section st \<or> stopped st \<Longrightarrow> \<not> header_line k l \<Longrightarrow> end_line k l \<Longrightarrow>
   stopped (scan_step k st l) \<and> section_text (scan_step k st l) = section_text st"
  by (auto simp add: scan_step_def)

text \<open>
  C5 (a short line with a header keyword of another kind closes the open section), as the
  claim states it: \<open>career\<close> is a header keyword of the experience kind, and the line
  \<open>Career\<close> does not close the education section but is appended to it.
\<close>

theorem other_header_counterexample:
  "is_open (scan_lines Education [''Education'']) \<and>
   header_line Experience ''Career'' \<and>
   is_open (scan_lines Education [''Education'', ''Career'']) \<and>
   section_text (scan_lines Education [''Education'', ''Career'']) = ''Education\<newline>Career\<newline>''"
  by code_simp

text \<open>
  C5, amended: while the section of kind \<open>k\<close> is open, a non-empty line shorter than 30
  characters that holds none of the header keywords of \<open>k\<close> and one of the end keywords of
  \<open>k\<close> (\<open>end_keywords\<close>, the lists written in the three loops) closes the section: the
  line and all lines after it leave the text as it was before the line. In particular the
  education section of \<open>University of Example\<close>, \<open>Experience\<close> is the first line alone.
\<close>

theorem end_line_closes:
  "(is_open (scan_lines k pre) \<and> \<not> header_line k line \<and> end_line k line \<longrightarrow>
      stopped (scan_lines k (pre @ line # post)) \<and>
      section_text (scan_lines k (pre @ line # post)) = section_text (scan_lines k pre) \<and>
      \<not> contributes k (pre @ line # post) (length pre)) \<and>
   find_section Education ''University of Example\<newline>Experience'' = ''University of Example\<newline>''"
proof -
  have scen: "find_section Education ''University of Example\<newline>Experience'' =
      ''University of Example\<newline>''"
    by code_simp
  have gen: "stopped (scan_lines k (pre @ line # post)) \<and>
      section_text (scan_lines k (pre @ line # post)) = section_text (scan_lines k pre) \<and>
      \<not> contributes k (pre @ line # post) (length pre)"
    if o: "is_open (scan_lines k pre)" and nh: "\<not> header_line k line" and e: "end_line k line"
  proof -
    let ?st = "scan_lines k pre"
    have ins: "in_section ?st \<or> stopped ?st" using o by (simp add: is_open_def)
    have s1: "stopped (scan_step k ?st line)"
      and t1: "section_text (scan_step k ?st line) = section_text ?st"
      using end_step [OF ins nh e] by simp_all
    have all: "scan_lines k (pre @ line # post) = scan_step k ?st line"
      using s1 by (simp add: scan_lines_append stopped_foldl)
    have tk: "take (length pre) (pre @ line # post) = pre" by simp
    have tk1: "take (Suc (length pre)) (pre @ line # post) = pre @ [line]" by simp
    have "scan_lines k (take (Suc (length pre)) (pre @ line # post)) = scan_step k ?st line"
      unfolding tk1 by (rule scan_lines_snoc)
    then have nc: "\<not> contributes k (pre @ line # post) (length pre)"
      unfolding contributes_def tk using t1 by simp
    from all s1 t1 nc show ?thesis by simp
  qed
  from gen scen show ?thesis by blast
qed

theorem end_line_closes_witness:
  "is_open (scan_lines Education [''Education'', ''State University'']) \<and>
   section_text (scan_lines Education
      ([''Education'', ''State University''] @ ''Work Experience'' # [''Engineer at Acme''])) =
     ''Education\<newline>State University\<newline>''"
proof -
  let ?pre = "[''Education'', ''State University'']"
  have h: "is_open (scan_lines Education ?pre) \<and> \<not> header_line Education ''Work Experience'' \<and>
      end_line Education ''Work Experience''"
    by code_simp
  have t: "section_text (scan_lines Education ?pre) = ''Education\<newline>State University\<newline>''"
    by code_simp
  from end_line_closes [of Education ?pre "''Work Experience''" "[''Engineer at Acme'']"] h t
  show ?thesis by simp
qed

section \<open>Sections of different kinds\<close>

















section \<open>The name\<close>

lemma name_loop_None: "name_loop ls = None \<longleftrightarrow> (\<forall>l \<in> set ls. \<not> name_ok l)"
  by (induction ls) simp_all

lemma name_loop_Some:
  "name_loop ls = Some n \<Longrightarrow>
   \<exists>i<length ls. name_ok (ls ! i) \<and> n = strip (ls ! i) \<and> (\<forall>j<i. \<not> name_ok (ls ! j))"
proof (induction ls)
  case Nil
  then show ?case by simp
next
  case (Cons l ls)
  show ?case
  proof (cases "name_ok l")
    case True
    with Cons.prems have "n = strip l" by simp
    with True have "name_ok ((l # ls) ! 0) \<and> n = strip ((l # ls) ! 0) \<and>
        (\<forall>j<0. \<not> name_ok ((l # ls) ! j))" by simp
    then show ?thesis by blast
  next
    case False
    with Cons.prems have "name_loop ls = Some n" by simp
    then obtain i where i: "i < length ls" "name_ok (ls ! i)" "n = strip (ls ! i)"
      "\<forall>j<i. \<not> name_ok (ls ! j)" using Cons.IH by blast
    have "\<forall>j<Suc i. \<not> name_ok ((l # ls) ! j)"
      using False i(4) by (simp add: nth_Cons split: nat.split)
    with i have "Suc i < length (l # ls) \<and> name_ok ((l # ls) ! Suc i) \<and>
        n = strip ((l # ls) ! Suc i) \<and> (\<forall>j<Suc i. \<not> name_ok ((l # ls) ! j))" by simp
    then show ?thesis by blast
  qed
qed

text \<open>
  C6 (the name is the first of the first five lines whose trimmed length is strictly between
  5 and 40 and that holds no forbidden word, else null), as the claim states it: the only
  line \<open>  Bob   \<close> has the trimmed length 3, yet \<^verbatim>\<open>extract_name\<close> returns \<open>Bob\<close>.
\<close>

theorem trimmed_length_counterexample:
  "extract_name ''  Bob   '' = Some ''Bob'' \<and>
   split_nl ''  Bob   '' = [''  Bob   ''] \<and>
   length (strip ''  Bob   '') = 3"
  by code_simp

text \<open>
  C6, amended: \<^verbatim>\<open>extract_name\<close> looks at the first five lines only and returns, trimmed,
  the first line whose length as it stands (not trimmed) is strictly between 5 and 40 and
  whose lower-case form holds none of \<open>@\<close>, \<open>http\<close>, \<open>resume\<close>, \<open>cv\<close>, \<open>email\<close>, \<open>phone\<close>
  (\<open>name_ok\<close>); it returns null exactly when none of these lines passes.
\<close>

theorem extract_name_first_ok:
  "(extract_name text = None \<longleftrightarrow>
      (\<forall>i < min 5 (length (split_nl text)). \<not> name_ok (split_nl text ! i))) \<and>
   (\<forall>n. extract_name text = Some n \<longrightarrow>
      (\<exists>i<5. i < length (split_nl text) \<and> name_ok (split_nl text ! i) \<and>
         n = strip (split_nl text ! i) \<and> (\<forall>j<i. \<not> name_ok (split_nl text ! j))))"
proof -
  let ?ls = "split_nl text"
  have a: "extract_name text = None \<longleftrightarrow> (\<forall>i < min 5 (length ?ls). \<not> name_ok (?ls ! i))"
    unfolding extract_name_def name_loop_None
    by (auto simp add: all_set_conv_all_nth)
  have b: "\<exists>i<5. i < length ?ls \<and> name_ok (?ls ! i) \<and> n = strip (?ls ! i) \<and>
      (\<forall>j<i. \<not> name_ok (?ls ! j))" if "extract_name text = Some n" for n
  proof -
    from that obtain i where i: "i < length (take 5 ?ls)" "name_ok (take 5 ?ls ! i)"
      "n = strip (take 5 ?ls ! i)" "\<forall>j<i. \<not> name_ok (take 5 ?ls ! j)"
      unfolding extract_name_def using name_loop_Some by blast
    from i(1) have i5: "i < 5" and il: "i < length ?ls" by simp_all
    from i(4) i5 have "\<forall>j<i. \<not> name_ok (?ls ! j)" by simp
    with i i5 il show ?thesis by auto
  qed
  from a b show ?thesis by blast
qed

theorem extract_name_first_ok_witness:
  "extract_name ''My Resume\<newline>Jane Smith\<newline>jane@mail.com'' = Some ''Jane Smith'' \<and>
   (\<exists>i<5. name_ok (split_nl ''My Resume\<newline>Jane Smith\<newline>jane@mail.com'' ! i) \<and>
      ''Jane Smith'' = strip (split_nl ''My Resume\<newline>Jane Smith\<newline>jane@mail.com'' ! i))"
proof -
  define t where "t = ''My Resume\<newline>Jane Smith\<newline>jane@mail.com''"
  define n where "n = ''Jane Smith''"
  have e: "extract_name t = Some n" unfolding t_def n_def by code_simp
  from extract_name_first_ok [of t] e
  have "\<exists>i<5. name_ok (split_nl t ! i) \<and> n = strip (split_nl t ! i)" by blast
  with e have "extract_name t = Some n \<and>
      (\<exists>i<5. name_ok (split_nl t ! i) \<and> n = strip (split_nl t ! i))" by blast
  then show ?thesis unfolding t_def n_def .
qed

section \<open>Records and the pipeline\<close>

lemma or_else_nonempty: "d \<noteq> [] \<Longrightarrow> or_else x d \<noteq> []"
  by (simp add: or_else_def split: option.split)

lemma education_entry_fields:
  assumes "r \<in> set (education_entry entry)"
  shows "degree r \<noteq> [] \<and> institution r \<noteq> [] \<and> year r \<noteq> []"
proof -
  define d where "d = map_option (\<lambda>m. strip (matched m))
                       (first_search (map degree_pattern degree_indicators) True entry)"
  define i where "i = map_option (\<lambda>m. strip (matched m))
                            (first_search institution_patterns True entry)"
  define y where "y = map_option matched (re_search year_pattern True entry)"
  define rec where "rec = \<lparr>degree = or_else d ''Degree not specified'',
                  institution = or_else i ''Institution not specified'',
                  year = or_else y ''Year not specified''\<rparr>"
  have eq: "education_entry entry =
      (if length (strip entry) < 10 then []
       else if truthy d \<or> truthy i then [rec] else [])"
    unfolding education_entry_def Let_def d_def i_def y_def rec_def by (rule refl)
  from assms have "r = rec" unfolding eq by (simp split: if_splits)
  then show ?thesis unfolding rec_def by (simp add: or_else_nonempty)
qed

lemma experience_entry_fields:
  assumes "r \<in> set (experience_entry entry)"
  shows "title r \<noteq> [] \<and> company r \<noteq> [] \<and> duration r \<noteq> []"
proof -
  define t where "t = (case re_findall title_pattern False entry of
                         [] \<Rightarrow> None | t # _ \<Rightarrow> Some (strip t))"
  define c where "c = (case first_search company_patterns False entry of
                         None \<Rightarrow> None
                       | Some m \<Rightarrow> map_option strip (group m 1))"
  define d where "d = map_option matched (re_search duration_pattern True entry)"
  define rec where "rec = \<lparr>title = or_else t ''Position not specified'',
                  company = or_else c ''Company not specified'',
                  duration = or_else d ''Duration not specified''\<rparr>"
  define skip where "skip \<longleftrightarrow> length (strip entry) < 15 \<or>
         lower (strip entry) \<in> set [''experience'', ''work experience'', ''employment history'']"
  have eq: "experience_entry entry =
      (if skip then [] else if truthy t \<or> truthy c then [rec] else [])"
    unfolding experience_entry_def Let_def t_def c_def d_def rec_def skip_def by (rule refl)
  from assms have "r = rec" unfolding eq by (simp split: if_splits)
  then show ?thesis unfolding rec_def by (simp add: or_else_nonempty)
qed

lemma experience_loop_fields:
  "experience_loop entries acc = Inr rs \<Longrightarrow>
   \<forall>r \<in> set acc. title r \<noteq> [] \<and> company r \<noteq> [] \<and> duration r \<noteq> [] \<Longrightarrow>
   \<forall>r \<in> set rs. title r \<noteq> [] \<and> company r \<noteq> [] \<and> duration r \<noteq> []"
proof (induction entries acc rule: experience_loop.induct)
  case (1 experience)
  then show ?case by simp
next
  case (2 entries experience)
  then show ?case by simp
next
  case (3 entry entries experience)
  have "\<forall>r \<in> set (experience @ experience_entry entry).
      title r \<noteq> [] \<and> company r \<noteq> [] \<and> duration r \<noteq> []"
  proof
    fix r assume "r \<in> set (experience @ experience_entry entry)"
    then consider "r \<in> set experience" | "r \<in> set (experience_entry entry)" by auto
    then show "title r \<noteq> [] \<and> company r \<noteq> [] \<and> duration r \<noteq> []"
    proof cases
      case 1
      with "3.prems"(2) show ?thesis by blast
    next
      case 2
      then show ?thesis by (rule experience_entry_fields)
    qed
  qed
  moreover have "experience_loop entries (experience @ experience_entry entry) = Inr rs"
    using "3.prems"(1) by simp
  ultimately show ?case using "3.IH" by blast
qed

text \<open>
  C7 (every field of every education and experience record is non-empty): each field is
  written as \<^verbatim>\<open>value or sentinel\<close>, which is the sentinel when the value is None or the
  empty string. The experience records are those of a call that returns.
\<close>

theorem sentinel_completeness:
  "(\<forall>r \<in> set (extract_education text).
      degree r \<noteq> [] \<and> institution r \<noteq> [] \<and> year r \<noteq> []) \<and>
   (\<forall>rs. extract_experience text = Inr rs \<longrightarrow>
      (\<forall>r \<in> set rs. title r \<noteq> [] \<and> company r \<noteq> [] \<and> duration r \<noteq> []))"
proof -
  have a: "\<forall>r \<in> set (extract_education text).
      degree r \<noteq> [] \<and> institution r \<noteq> [] \<and> year r \<noteq> []"
  proof
    fix r assume "r \<in> set (extract_education text)"
    then have "\<exists>entry. r \<in> set (education_entry entry)"
      by (auto simp add: extract_education_def Let_def split: if_splits)
    then show "degree r \<noteq> [] \<and> institution r \<noteq> [] \<and> year r \<noteq> []"
      using education_entry_fields by blast
  qed
  have b: "\<forall>r \<in> set rs. title r \<noteq> [] \<and> company r \<noteq> [] \<and> duration r \<noteq> []"
    if "extract_experience text = Inr rs" for rs
  proof (cases "find_section Experience text = []")
    case True
    with that show ?thesis by (simp add: extract_experience_def)
  next
    case False
    with that have "experience_loop (experience_entries (find_section Experience text)) [] = Inr rs"
      by (simp add: extract_experience_def)
    then show ?thesis using experience_loop_fields [of _ "[]" rs] by simp
  qed
  from a b show ?thesis by blast
qed

theorem sentinel_completeness_witness:
  "extract_education ''Education\<newline>Bachelor of Arts at State College\<newline>Experience\<newline>Software Engineer at Acme Corp'' =
     [\<lparr>degree = ''Bachelor of Arts at State College'',
       institution = ''Education\<newline>Bachelor of Arts at State College'',
       year = ''Year not specified''\<rparr>] \<and>
   extract_experience ''Education\<newline>Bachelor of Arts at State College\<newline>Experience\<newline>Software Engineer at Acme Corp'' =
     Inr [\<lparr>title = ''Experience\<newline>Software Engineer'', company = ''Acme Corp'',
           duration = ''Duration not specified''\<rparr>] \<and>
   year (extract_education ''Education\<newline>Bachelor of Arts at State College\<newline>Experience\<newline>Software Engineer at Acme Corp'' ! 0) \<noteq> []"
proof -
  define t where "t = ''Education\<newline>Bachelor of Arts at State College\<newline>Experience\<newline>Software Engineer at Acme Corp''"
  define e where "e = [\<lparr>degree = ''Bachelor of Arts at State College'',
       institution = ''Education\<newline>Bachelor of Arts at State College'',
       year = ''Year not specified''\<rparr>]"
  define x where "x = [\<lparr>title = ''Experience\<newline>Software Engineer'', company = ''Acme Corp'',
           duration = ''Duration not specified''\<rparr>]"
  have a: "extract_education t = e" unfolding t_def e_def by code_simp
  have b: "extract_experience t = Inr x" unfolding t_def x_def by code_simp
  have "e ! 0 \<in> set e" unfolding e_def by simp
  then have m: "extract_education t ! 0 \<in> set (extract_education t)" using a by simp
  from sentinel_completeness [of t] have "\<forall>r \<in> set (extract_education t). year r \<noteq> []"
    by blast
  with m have "year (extract_education t ! 0) \<noteq> []" by blast
  with a b have "extract_education t = e \<and> extract_experience t = Inr x \<and>
      year (extract_education t ! 0) \<noteq> []" by blast
  then show ?thesis unfolding t_def e_def x_def .
qed

section \<open>Skills\<close>

lemma skills_loop_filter:
  "skills_loop text ks found = found @ filter (skill_found text) ks"
  by (induction ks arbitrary: found) simp_all

lemma extract_skills_filter:
  "extract_skills text = filter (skill_found text) skill_keywords"
  by (simp add: extract_skills_def skills_loop_filter)

lemma scenario_skills:
  "extract_skills ''python javascript leadership'' = [''python'', ''javascript'', ''leadership'']"
  by code_simp

text \<open>
  C8 (the skills are exactly the entries of the vocabulary whose word-bounded form occurs in
  the lower-case text, in the order of the vocabulary): the loop is a filter of the
  vocabulary in its order (\<open>extract_skills_filter\<close>) and the text
  \<open>python javascript leadership\<close> gives these three skills (\<open>scenario_skills\<close>), but the
  entries \<open>c++\<close>, \<open>c#\<close> and \<open>.net\<close> of the vocabulary are not found where they stand as
  words of their own. In \<open>I know C++ and Java\<close> the lower-case text holds \<open>c++\<close> between two
  spaces, and the result is \<open>java\<close> alone: \<^verbatim>\<open>\b\<close> after the escaped \<open>+\<close> asks for a word
  character right after the skill, and \<^verbatim>\<open>\b\<close> before the escaped \<open>.\<close> of \<open>.net\<close> for a word
  character right before it.
\<close>

theorem skills_miss_symbol_entries:
  "lower ''I know C++ and Java'' = ''i know c++ and java'' \<and>
   extract_skills ''I know C++ and Java'' = [''java''] \<and>
   extract_skills ''Skills: C++, C#, .NET'' = []"
  by code_simp

section \<open>The splits with a lookahead\<close>

text \<open>
  The education split, the projects split and the second experience split (on the lines
  that hold a year) match one newline that a lookahead follows. They consume nothing but
  that newline: the items joined by newlines are the section again. (The first experience
  split, on the date ranges, is not of this form.)
\<close>

lemma split_from_nonempty: "split_from r ic piece p s \<noteq> []"
proof (induction s arbitrary: piece p)
  case Nil
  then show ?case by simp
next
  case (Cons c cs)
  then show ?case by (simp split: list.split prod.split del: ms.simps)
qed

lemma join_nl_Cons: "ys \<noteq> [] \<Longrightarrow> join_nl (x # ys) = x @ CHR 0x0A # join_nl ys"
  by (cases ys) simp_all

lemma ms_newline_ahead:
  "ms (Seq (Chr CHR 0x0A) (Ahead r)) False (p, s, caps) =
     (case s of [] \<Rightarrow> []
      | c # cs \<Rightarrow> if c = CHR 0x0A \<and> ms r False (Some c, cs, caps) \<noteq> []
                  then [(Some c, cs, caps)] else [])"
  by (simp add: fold_case_def split: list.split)

lemma split_before_anchor_lossless:
  assumes "ngroups r = 0"
  shows "join_nl (strings_of (split_from (Seq (Chr CHR 0x0A) (Ahead r)) False piece p s)) =
         rev piece @ s"
proof (induction s arbitrary: piece p)
  case Nil
  then show ?case by (simp add: strings_of_def)
next
  case (Cons c cs)
  let ?R = "Seq (Chr CHR 0x0A) (Ahead r)"
  show ?case
  proof (cases "c = CHR 0x0A \<and> ms r False (Some c, cs, []) \<noteq> []")
    case True
    then have m: "ms ?R False (p, c # cs, []) = [(Some c, cs, [])]"
      by (auto simp add: ms_newline_ahead fold_case_def)
    have "split_from ?R False piece p (c # cs) =
        Some (rev piece) # split_from ?R False [] (Some c) cs"
      using assms by (simp add: m del: ms.simps)
    moreover have "strings_of (split_from ?R False [] (Some c) cs) \<noteq> []"
      using split_from_nonempty by (simp add: strings_of_def)
    ultimately show ?thesis
      using True Cons.IH [of "[]" "Some c"] by (simp add: strings_of_def join_nl_Cons)
  next
    case False
    then have m: "ms ?R False (p, c # cs, []) = []"
      by (auto simp add: ms_newline_ahead fold_case_def)
    have "split_from ?R False piece p (c # cs) = split_from ?R False (c # piece) (Some c) cs"
      by (simp add: m del: ms.simps)
    then show ?thesis using Cons.IH [of "c # piece" "Some c"] by simp
  qed
qed

lemma education_split_lossless: "join_nl (education_entries section) = section"
proof -
  have e: "education_split = Seq (Chr CHR 0x0A)
       (Ahead (Alt (digits 4) (seqs [Bnd, alts (map dotted degree_indicators), Bnd])))"
    by (simp add: education_split_def)
  have n: "ngroups (Alt (digits 4) (seqs [Bnd, alts (map dotted degree_indicators), Bnd])) = 0"
    by code_simp
  show ?thesis
    unfolding education_entries_def re_split_def e
    using split_before_anchor_lossless [OF n, of "[]" None "section"] by simp
qed

lemma project_split_lossless: "join_nl (project_entries section) = section"
proof -
  have n: "ngroups (alts [Cls (\<lambda>c. False), Chr CHR ''*'', Chr CHR ''-'',
                     Seq (Rep True 1 None is_digit) (Chr CHR ''.''),
                     Seq (Rep True 1 None is_digit) (Chr CHR '')''),
                     Seq (Rep True 1 None is_word) (Chr CHR '':'')]) = 0"
    by simp
  show ?thesis
    unfolding project_entries_def re_split_def project_split_def
    using split_before_anchor_lossless [OF n, of "[]" None "section"] by simp
qed

lemma year_line_split_lossless:
  "join_nl (strings_of (re_split year_line_split False section)) = section"
proof -
  have n: "ngroups (seqs [Rep True 0 None not_newline, Bnd, Alt (lit ''19'') (lit ''20''),
                     digits 2, Bnd]) = 0"
    by (simp add: lit_def digits_def)
  show ?thesis
    unfolding re_split_def year_line_split_def
    using split_before_anchor_lossless [OF n, of "[]" None "section"] by simp
qed

end
